theory Spec2Isabelle
  imports Main "HOL-Library.Sublist" "HOL-Library.Multiset"
begin

section \<open>NotesFlow backend: the handlers of server.js\<close>

text \<open>
  The development follows \<^verbatim>\<open>src/server.js\<close>: one definition per helper, middleware and
  route handler, in the order of the file. The three packages the file calls
  (jsonwebtoken, bcryptjs, mongoose) are not part of the repository; what the handlers
  rely on is modelled as follows.

  \<^item> Request bodies are parsed JSON objects. The password of a login request is any JSON
    value (\<open>js_value\<close>): what the handler answers to a password that is not a string
    depends on whether the email is registered. Every other body field is \<open>None\<close> when
    the property is absent and \<open>Some s\<close> when it is the string \<open>s\<close>; for those fields
    the other JSON types are outside the model, and with them the \<^verbatim>\<open>catch\<close> branches
    that only such a value reaches (\<^verbatim>\<open>bcrypt.hash\<close> on a password that is not a string, in
    register and reset-password).
  \<^item> A signed token is a payload together with the key it was signed with (\<open>JWS\<close>); how
    it is written as a string is a parameter (\<open>jws_encode\<close>, \<open>jws_decode\<close>). The order of
    the checks of \<^verbatim>\<open>jwt.verify\<close> and the names of its error classes are those of the
    jsonwebtoken package.
  \<^item> \<^verbatim>\<open>bcrypt.hash\<close> and \<^verbatim>\<open>bcrypt.compare\<close> are parameters; the salt drawn by
    \<^verbatim>\<open>bcrypt.genSalt\<close> is an input of the handler that hashes.
  \<^item> A collection is the list of its documents in insertion order. The clock
    (\<^verbatim>\<open>Date.now()\<close>, milliseconds) and a freshly generated ObjectId are inputs of the
    handler that reads them. Persistence calls are taken to complete: a failing
    datastore is not modelled.
\<close>

subsection \<open>Documents (the two mongoose schemas)\<close>

type_synonym object_id = nat
type_synonym millis = nat

record user_doc =
  user_id :: object_id
  email :: string
  password :: string

record note_doc =
  note_id :: object_id
  title :: "string option"
  content :: "string option"
  owner :: object_id
  createdAt :: millis

record db =
  User :: "user_doc list"
  Note :: "note_doc list"

subsection \<open>Responses\<close>

datatype json =
    Message string
  | TokenAndUser string object_id string
  | NoteList "note_doc list"
  | NoteDoc note_doc

record response =
  status :: nat
  body :: json

text \<open>JavaScript's \<^verbatim>\<open>!x\<close> on a body field: an absent property and the empty string are falsy.\<close>

definition falsy :: "string option \<Rightarrow> bool" where
  "falsy x = (case x of None \<Rightarrow> True | Some s \<Rightarrow> s = [])"

text \<open>
  A JSON value as the body parser delivers it. \<open>Undefined\<close> is an absent property;
  \<open>Number\<close> carries an integer (a fraction behaves like a non-zero integer in all that
  follows); \<open>Object\<close> stands for any object or array.
\<close>

datatype js_value = Undefined | Null | Boolean bool | Number int | Str string | Object

fun js_falsy :: "js_value \<Rightarrow> bool" where
  "js_falsy Undefined = True"
| "js_falsy Null = True"
| "js_falsy (Boolean b) = (b = False)"
| "js_falsy (Number n) = (n = 0)"
| "js_falsy (Str s) = (s = [])"
| "js_falsy Object = False"

fun js_typeof :: "js_value \<Rightarrow> string" where
  "js_typeof Undefined = ''undefined''"
| "js_typeof Null = ''object''"
| "js_typeof (Boolean b) = ''boolean''"
| "js_typeof (Number n) = ''number''"
| "js_typeof (Str s) = ''string''"
| "js_typeof Object = ''object''"

subsection \<open>The packages\<close>

record jwt_payload =
  claim_id :: object_id
  claim_email :: "string option"
  claim_iat :: nat
  claim_exp :: nat

datatype jws = JWS jwt_payload string

datatype js_error = JsonWebTokenError string | TokenExpiredError string | Error string

fun error_name :: "js_error \<Rightarrow> string" where
  "error_name (JsonWebTokenError m) = ''JsonWebTokenError''"
| "error_name (TokenExpiredError m) = ''TokenExpiredError''"
| "error_name (Error m) = ''Error''"

fun error_message :: "js_error \<Rightarrow> string" where
  "error_message (JsonWebTokenError m) = m"
| "error_message (TokenExpiredError m) = m"
| "error_message (Error m) = m"

record env =
  env_JWT_SECRET :: "string option"
  jws_encode :: "jws \<Rightarrow> string"
  jws_decode :: "string \<Rightarrow> jws option"
  bcrypt_hash :: "string \<Rightarrow> string \<Rightarrow> string"
  bcrypt_compare :: "string \<Rightarrow> string \<Rightarrow> bool"

text \<open>\<^verbatim>\<open>const JWT_SECRET = process.env.JWT_SECRET || "notesflow_secret"\<close>\<close>

definition JWT_SECRET :: "env \<Rightarrow> string" where
  "JWT_SECRET e =
     (case env_JWT_SECRET e of
        None \<Rightarrow> ''notesflow_secret''
      | Some s \<Rightarrow> if s = [] then ''notesflow_secret'' else s)"

text \<open>
  \<^verbatim>\<open>jwt.sign(payload, secret, {expiresIn})\<close>: the package adds \<open>iat\<close>, the clock in whole
  seconds, and \<open>exp = iat + expiresIn\<close> (\<open>expiresIn\<close> in seconds: "7d" is 604800, "1h" is
  3600).
\<close>

definition jwt_sign :: "env \<Rightarrow> object_id \<Rightarrow> string option \<Rightarrow> string \<Rightarrow> nat \<Rightarrow> millis \<Rightarrow> string" where
  "jwt_sign e pid pemail secret expiresIn now =
     jws_encode e
       (JWS \<lparr>claim_id = pid, claim_email = pemail,
             claim_iat = now div 1000, claim_exp = now div 1000 + expiresIn\<rparr> secret)"

text \<open>
  \<^verbatim>\<open>jwt.verify(token, secret)\<close>: a missing token, a string that is not a token and a
  signature made with another key raise JsonWebTokenError; a token whose \<open>exp\<close> is not
  after the clock raises TokenExpiredError, whose \<open>name\<close> is "TokenExpiredError".
\<close>

definition jwt_verify :: "env \<Rightarrow> string option \<Rightarrow> string \<Rightarrow> millis \<Rightarrow> js_error + jwt_payload" where
  "jwt_verify e token secret now =
     (case token of
        None \<Rightarrow> Inl (JsonWebTokenError ''jwt must be provided'')
      | Some t \<Rightarrow>
          if t = [] then Inl (JsonWebTokenError ''jwt must be provided'')
          else
            (case jws_decode e t of
               None \<Rightarrow> Inl (JsonWebTokenError ''jwt malformed'')
             | Some (JWS payload key) \<Rightarrow>
                 if key \<noteq> secret then Inl (JsonWebTokenError ''invalid signature'')
                 else if claim_exp payload \<le> now div 1000
                 then Inl (TokenExpiredError ''jwt expired'')
                 else Inr payload))"

text \<open>
  \<^verbatim>\<open>bcrypt.compare(s, hash)\<close>: the package first checks that both arguments are strings
  and rejects with a plain \<^verbatim>\<open>Error\<close> otherwise; the stored hash is always a string.
\<close>

definition bcrypt_compare_call :: "env \<Rightarrow> js_value \<Rightarrow> string \<Rightarrow> js_error + bool" where
  "bcrypt_compare_call e s hash =
     (case s of
        Str pw \<Rightarrow> Inr (bcrypt_compare e pw hash)
      | _ \<Rightarrow> Inl (Error (''Illegal arguments: '' @ js_typeof s @ '', string'')))"

text \<open>\<^verbatim>\<open>String.prototype.split\<close> with a one-character separator.\<close>

fun js_split :: "char \<Rightarrow> string \<Rightarrow> string list" where
  "js_split c [] = [[]]"
| "js_split c (x # xs) =
     (if x = c then [] # js_split c xs
      else (case js_split c xs of
              [] \<Rightarrow> [[x]]
            | w # ws \<Rightarrow> (x # w) # ws))"

text \<open>Indexing a JavaScript array: out of range is \<^verbatim>\<open>undefined\<close>.\<close>

definition js_index :: "'a list \<Rightarrow> nat \<Rightarrow> 'a option" where
  "js_index xs i = (if i < length xs then Some (xs ! i) else None)"

text \<open>The mongoose queries the handlers use.\<close>

definition User_findOne :: "string \<Rightarrow> user_doc list \<Rightarrow> user_doc option" where
  "User_findOne e us = find (\<lambda>u. email u = e) us"

definition User_findById :: "object_id \<Rightarrow> user_doc list \<Rightarrow> user_doc option" where
  "User_findById i us = find (\<lambda>u. user_id u = i) us"

text \<open>\<^verbatim>\<open>doc.save()\<close> on a document read from the collection writes it back under its id.\<close>

definition User_save :: "user_doc \<Rightarrow> user_doc list \<Rightarrow> user_doc list" where
  "User_save u us = map (\<lambda>v. if user_id v = user_id u then u else v) us"

definition Note_save :: "note_doc \<Rightarrow> note_doc list \<Rightarrow> note_doc list" where
  "Note_save n ns = map (\<lambda>m. if note_id m = note_id n then n else m) ns"

definition Note_findOne :: "object_id \<Rightarrow> object_id \<Rightarrow> note_doc list \<Rightarrow> note_doc option" where
  "Note_findOne nid uid ns = find (\<lambda>n. note_id n = nid \<and> owner n = uid) ns"

text \<open>
  \<^verbatim>\<open>Note.find({owner}).sort({createdAt: -1})\<close>: the matching documents, latest first.
  \<open>sort_key\<close> is a stable insertion sort, so sorting on the negated time keeps documents
  of equal \<open>createdAt\<close> in insertion order, the order in which the datastore returns them
  from a scan of the collection. The datastore does not promise that order among equal
  keys.
\<close>

definition Note_find_sorted :: "object_id \<Rightarrow> note_doc list \<Rightarrow> note_doc list" where
  "Note_find_sorted uid ns =
     sort_key (\<lambda>n. - int (createdAt n)) (filter (\<lambda>n. owner n = uid) ns)"

fun delete_first :: "('a \<Rightarrow> bool) \<Rightarrow> 'a list \<Rightarrow> 'a list" where
  "delete_first P [] = []"
| "delete_first P (x # xs) = (if P x then xs else x # delete_first P xs)"

subsection \<open>Auth helpers\<close>

definition generateToken :: "env \<Rightarrow> millis \<Rightarrow> user_doc \<Rightarrow> string" where
  "generateToken e now u =
     jwt_sign e (user_id u) (Some (email u)) (JWT_SECRET e) 604800 now"

definition hashPassword :: "env \<Rightarrow> string \<Rightarrow> string \<Rightarrow> string" where
  "hashPassword e salt pw = bcrypt_hash e pw salt"

definition comparePassword :: "env \<Rightarrow> js_value \<Rightarrow> string \<Rightarrow> js_error + bool" where
  "comparePassword e pw hash = bcrypt_compare_call e pw hash"

subsection \<open>Auth middleware\<close>

record req_user =
  req_id :: object_id
  req_email :: "string option"

text \<open>
  \<open>Inl r\<close>: the middleware answered with \<open>r\<close> and the handler does not run.
  \<open>Inr u\<close>: \<^verbatim>\<open>req.user = u\<close> and \<^verbatim>\<open>next()\<close> is called.
\<close>

definition authMiddleware :: "env \<Rightarrow> millis \<Rightarrow> string option \<Rightarrow> response + req_user" where
  "authMiddleware e now authorization =
     (if falsy authorization \<or> \<not> prefix ''Bearer '' (the authorization)
      then Inl \<lparr>status = 401, body = Message ''Unauthorized''\<rparr>
      else
        (let token = js_index (js_split CHR '' '' (the authorization)) 1 in
         case jwt_verify e token (JWT_SECRET e) now of
           Inr decoded \<Rightarrow> Inr \<lparr>req_id = claim_id decoded, req_email = claim_email decoded\<rparr>
         | Inl err \<Rightarrow> Inl \<lparr>status = 401, body = Message ''Invalid token''\<rparr>))"

text \<open>
  \<^verbatim>\<open>app.get(path, authMiddleware, handler)\<close>: the handler runs only when the middleware has
  called \<^verbatim>\<open>next()\<close>, with the \<^verbatim>\<open>req.user\<close> it has set.
\<close>

definition protected ::
  "env \<Rightarrow> millis \<Rightarrow> string option \<Rightarrow> (req_user \<Rightarrow> db \<Rightarrow> response \<times> db) \<Rightarrow> db \<Rightarrow> response \<times> db" where
  "protected e now authorization handler d =
     (case authMiddleware e now authorization of
        Inl r \<Rightarrow> (r, d)
      | Inr u \<Rightarrow> handler u d)"

subsection \<open>Routes\<close>

text \<open>Register: \<^verbatim>\<open>POST /api/auth/register\<close>.\<close>

definition register ::
  "env \<Rightarrow> millis \<Rightarrow> string \<Rightarrow> object_id \<Rightarrow> string option \<Rightarrow> string option \<Rightarrow> db \<Rightarrow> response \<times> db" where
  "register e now salt new_id email_f password_f d =
     (if falsy email_f \<or> falsy password_f
      then (\<lparr>status = 400, body = Message ''Email and password required''\<rparr>, d)
      else
        (case User_findOne (the email_f) (User d) of
           Some exists \<Rightarrow> (\<lparr>status = 409, body = Message ''User already exists''\<rparr>, d)
         | None \<Rightarrow>
             (let hashed = hashPassword e salt (the password_f);
                  u = \<lparr>user_id = new_id, email = the email_f, password = hashed\<rparr>;
                  d' = d\<lparr>User := User d @ [u]\<rparr>;
                  token = generateToken e now u
              in (\<lparr>status = 201, body = TokenAndUser token (user_id u) (email u)\<rparr>, d'))))"

text \<open>Login: \<^verbatim>\<open>POST /api/auth/login\<close>.\<close>

definition login ::
  "env \<Rightarrow> millis \<Rightarrow> string option \<Rightarrow> js_value \<Rightarrow> db \<Rightarrow> response \<times> db" where
  "login e now email_f password_f d =
     (if falsy email_f \<or> js_falsy password_f
      then (\<lparr>status = 400, body = Message ''Email and password required''\<rparr>, d)
      else
        (case User_findOne (the email_f) (User d) of
           None \<Rightarrow> (\<lparr>status = 401, body = Message ''Invalid credentials''\<rparr>, d)
         | Some u \<Rightarrow>
             (case comparePassword e password_f (password u) of
                Inl err \<Rightarrow> (\<lparr>status = 500, body = Message (error_message err)\<rparr>, d)
              | Inr ok \<Rightarrow>
                  if \<not> ok
                  then (\<lparr>status = 401, body = Message ''Invalid credentials''\<rparr>, d)
                  else (\<lparr>status = 200,
                         body = TokenAndUser (generateToken e now u) (user_id u) (email u)\<rparr>,
                        d))))"

text \<open>
  Password reset request: \<^verbatim>\<open>POST /api/auth/forgot-password\<close>. The second component is
  what the handler writes with \<^verbatim>\<open>console.log\<close>.
\<close>

definition forgot_password ::
  "env \<Rightarrow> millis \<Rightarrow> string option \<Rightarrow> db \<Rightarrow> response \<times> string list" where
  "forgot_password e now email_f d =
     (if falsy email_f then (\<lparr>status = 400, body = Message ''Email required''\<rparr>, [])
      else
        (case User_findOne (the email_f) (User d) of
           None \<Rightarrow>
             (\<lparr>status = 200, body = Message ''If the email exists, instructions will be sent''\<rparr>, [])
         | Some u \<Rightarrow>
             (let resetToken = jwt_sign e (user_id u) None (JWT_SECRET e) 3600 now
              in (\<lparr>status = 200,
                   body = Message ''If the email exists, instructions will be sent''\<rparr>,
                  [''Reset token for '' @ the email_f @ '': '' @ resetToken]))))"

text \<open>Reset password: \<^verbatim>\<open>POST /api/auth/reset-password\<close>.\<close>

definition reset_password ::
  "env \<Rightarrow> millis \<Rightarrow> string \<Rightarrow> string option \<Rightarrow> string option \<Rightarrow> db \<Rightarrow> response \<times> db" where
  "reset_password e now salt token_f password_f d =
     (if falsy token_f \<or> falsy password_f
      then (\<lparr>status = 400, body = Message ''Token and password required''\<rparr>, d)
      else
        (case jwt_verify e token_f (JWT_SECRET e) now of
           Inr decoded \<Rightarrow>
             (case User_findById (claim_id decoded) (User d) of
                None \<Rightarrow> (\<lparr>status = 404, body = Message ''User not found''\<rparr>, d)
              | Some u \<Rightarrow>
                  (let hashed = hashPassword e salt (the password_f);
                       u' = u\<lparr>password := hashed\<rparr>
                   in (\<lparr>status = 200, body = Message ''Password updated successfully''\<rparr>,
                       d\<lparr>User := User_save u' (User d)\<rparr>)))
         | Inl err \<Rightarrow>
             if error_name err = ''JsonWebTokenError''
             then (\<lparr>status = 401, body = Message ''Invalid or expired token''\<rparr>, d)
             else (\<lparr>status = 500, body = Message ''Could not reset password''\<rparr>, d)))"

text \<open>Notes (protected): the handlers behind \<open>authMiddleware\<close>, given \<^verbatim>\<open>req.user\<close>.\<close>

definition get_notes :: "req_user \<Rightarrow> db \<Rightarrow> response \<times> db" where
  "get_notes ru d =
     (\<lparr>status = 200, body = NoteList (Note_find_sorted (req_id ru) (Note d))\<rparr>, d)"

definition post_notes ::
  "millis \<Rightarrow> object_id \<Rightarrow> string option \<Rightarrow> string option \<Rightarrow> req_user \<Rightarrow> db \<Rightarrow> response \<times> db" where
  "post_notes now new_id title_f content_f ru d =
     (if falsy title_f \<or> falsy content_f
      then (\<lparr>status = 400, body = Message ''Title and content required''\<rparr>, d)
      else
        (let newNote = \<lparr>note_id = new_id, title = title_f, content = content_f,
                        owner = req_id ru, createdAt = now\<rparr>
         in (\<lparr>status = 201, body = NoteDoc newNote\<rparr>, d\<lparr>Note := Note d @ [newNote]\<rparr>)))"

definition put_notes ::
  "object_id \<Rightarrow> string option \<Rightarrow> string option \<Rightarrow> req_user \<Rightarrow> db \<Rightarrow> response \<times> db" where
  "put_notes noteId title_f content_f ru d =
     (case Note_findOne noteId (req_id ru) (Note d) of
        None \<Rightarrow> (\<lparr>status = 404, body = Message ''Note not found''\<rparr>, d)
      | Some n \<Rightarrow>
          (let n' = n\<lparr>title := title_f, content := content_f\<rparr>
           in (\<lparr>status = 200, body = NoteDoc n'\<rparr>, d\<lparr>Note := Note_save n' (Note d)\<rparr>)))"

definition delete_notes :: "object_id \<Rightarrow> req_user \<Rightarrow> db \<Rightarrow> response \<times> db" where
  "delete_notes noteId ru d =
     (case Note_findOne noteId (req_id ru) (Note d) of
        None \<Rightarrow> (\<lparr>status = 404, body = Message ''Note not found''\<rparr>, d)
      | Some n \<Rightarrow>
          (\<lparr>status = 200, body = Message ''Note deleted successfully''\<rparr>,
           d\<lparr>Note := delete_first (\<lambda>m. note_id m = noteId \<and> owner m = req_id ru) (Note d)\<rparr>))"

subsection \<open>An instance of the parameters\<close>

text \<open>
  To run the handlers on concrete requests the parameters need values. \<open>table_env\<close> writes
  tokens through a finite table of (string, token) pairs and uses a toy hash that
  prepends a two-character salt; the secret is the default one of the source.
\<close>

definition table_env :: "(string \<times> jws) list \<Rightarrow> env" where
  "table_env tbl =
     \<lparr>env_JWT_SECRET = None,
      jws_encode = (\<lambda>t. case find (\<lambda>p. snd p = t) tbl of Some p \<Rightarrow> fst p | None \<Rightarrow> []),
      jws_decode = map_of tbl,
      bcrypt_hash = (\<lambda>pw salt. salt @ pw),
      bcrypt_compare = (\<lambda>pw h. drop 2 h = pw)\<rparr>"

text \<open>
  What the theorems ask of the token serialisation, for one token \<open>t\<close>: the string
  written for \<open>t\<close> reads back as \<open>t\<close>, is not empty and has no space in it.
\<close>

definition codec_ok :: "env \<Rightarrow> jws \<Rightarrow> bool" where
  "codec_ok e t =
     (jws_decode e (jws_encode e t) = Some t \<and> jws_encode e t \<noteq> [] \<and>
      CHR '' '' \<notin> set (jws_encode e t))"

subsection \<open>Concrete data for the examples\<close>

text \<open>
  One account (id 1) with one note, and the reset token that \<open>forgot_password\<close> signs for
  it at time 0: it expires at second 3600. The table writes that token as \<open>rt\<close>. The
  session token of a second account (id 2), signed at second 5, is written as \<open>st\<close>.
\<close>

definition reset_jws :: jws where
  "reset_jws =
     JWS \<lparr>claim_id = 1, claim_email = None, claim_iat = 0, claim_exp = 3600\<rparr>
       ''notesflow_secret''"

definition session_jws :: jws where
  "session_jws =
     JWS \<lparr>claim_id = 2, claim_email = Some ''x@y.z'', claim_iat = 5, claim_exp = 604805\<rparr>
       ''notesflow_secret''"

definition demo_env :: env where
  "demo_env = table_env [(''rt'', reset_jws), (''st'', session_jws)]"

definition demo_db :: db where
  "demo_db =
     \<lparr>User = [\<lparr>user_id = 1, email = ''a@b.c'', password = ''s0secret''\<rparr>],
      Note = [\<lparr>note_id = 10, title = Some ''t'', content = Some ''c'', owner = 1,
               createdAt = 5\<rparr>]\<rparr>"

text \<open>Three notes of identity 1 and one of identity 2, all created at different times.\<close>

definition two_owner_db :: db where
  "two_owner_db =
     \<lparr>User = [],
      Note = [\<lparr>note_id = 10, title = Some ''a'', content = Some ''x'', owner = 1, createdAt = 5\<rparr>,
              \<lparr>note_id = 11, title = Some ''b'', content = Some ''y'', owner = 1, createdAt = 9\<rparr>,
              \<lparr>note_id = 12, title = Some ''c'', content = Some ''z'', owner = 2, createdAt = 8\<rparr>,
              \<lparr>note_id = 13, title = Some ''d'', content = Some ''w'', owner = 1, createdAt = 7\<rparr>]\<rparr>"

text \<open>Two notes of one owner, created in the same millisecond.\<close>

definition tie_db :: db where
  "tie_db =
     \<lparr>User = [],
      Note = [\<lparr>note_id = 10, title = Some ''a'', content = Some ''x'', owner = 1, createdAt = 5\<rparr>,
              \<lparr>note_id = 11, title = Some ''b'', content = Some ''y'', owner = 1, createdAt = 5\<rparr>]\<rparr>"

section \<open>Properties\<close>

subsection \<open>Helper lemmas\<close>

lemma js_split_no_sep: "c \<notin> set t \<Longrightarrow> js_split c t = [t]"
  by (induction t) auto

lemma bearer_token:
  "CHR '' '' \<notin> set t \<Longrightarrow> js_index (js_split CHR '' '' (''Bearer '' @ t)) 1 = Some t"
  by (simp add: js_split_no_sep js_index_def)

lemma jwt_verify_sign:
  assumes "codec_ok e (JWS \<lparr>claim_id = i, claim_email = m, claim_iat = now div 1000,
                             claim_exp = now div 1000 + ttl\<rparr> secret)"
  shows "jwt_verify e (Some (jwt_sign e i m secret ttl now)) secret now' =
           (if now' div 1000 < now div 1000 + ttl
            then Inr \<lparr>claim_id = i, claim_email = m, claim_iat = now div 1000,
                      claim_exp = now div 1000 + ttl\<rparr>
            else Inl (TokenExpiredError ''jwt expired''))"
  using assms by (simp add: codec_ok_def jwt_verify_def jwt_sign_def)

lemma jwt_sign_no_space:
  assumes "codec_ok e (JWS \<lparr>claim_id = i, claim_email = m, claim_iat = now div 1000,
                             claim_exp = now div 1000 + ttl\<rparr> secret)"
  shows "CHR '' '' \<notin> set (jwt_sign e i m secret ttl now)"
    and "jwt_sign e i m secret ttl now \<noteq> []"
  using assms by (simp_all add: codec_ok_def jwt_sign_def)

lemma demo_env_codec_ok: "codec_ok demo_env reset_jws"
  by (simp add: codec_ok_def demo_env_def table_env_def)

lemma demo_env_secret: "JWT_SECRET demo_env = ''notesflow_secret''"
  by (simp add: JWT_SECRET_def demo_env_def table_env_def)

lemma same_id_same_note:
  assumes "distinct (map note_id ns)" and "n \<in> set ns" and "m \<in> set ns"
    and "note_id m = note_id n"
  shows "m = n"
  using assms by (meson distinct_map inj_onD)

lemma Note_findOne_foreign:
  assumes "distinct (map note_id ns)" and "n \<in> set ns" and "owner n \<noteq> uid"
  shows "Note_findOne (note_id n) uid ns = None"
  unfolding Note_findOne_def find_None_iff
  using same_id_same_note[OF assms(1,2)] assms(3) by blast

lemma Note_findOne_own:
  assumes "distinct (map note_id ns)" and "n \<in> set ns"
  shows "Note_findOne (note_id n) (owner n) ns = Some n"
  using assms unfolding Note_findOne_def
  by (induction ns) (auto simp: image_iff)

lemma Note_save_ids: "note_id n' = i \<Longrightarrow> map note_id (Note_save n' ns) = map note_id ns"
  unfolding Note_save_def by (induction ns) auto

lemma Note_save_mem:
  "n \<in> set ns \<Longrightarrow> note_id n' = note_id n \<Longrightarrow> n' \<in> set (Note_save n' ns)"
  unfolding Note_save_def by (induction ns) auto

lemma set_delete_first: "set (delete_first P xs) \<subseteq> set xs"
  by (induction xs) auto

lemma distinct_delete_first:
  "distinct (map f xs) \<Longrightarrow> distinct (map f (delete_first P xs))"
proof (induction xs)
  case Nil
  then show ?case by simp
next
  case (Cons x xs)
  then show ?case using set_delete_first[of P xs] by auto
qed

text \<open>Note ids stay pairwise distinct, provided each new ObjectId is fresh.\<close>

lemma post_notes_distinct:
  assumes "distinct (map note_id (Note d))" and "new_id \<notin> note_id ` set (Note d)"
  shows "distinct (map note_id (Note (snd (post_notes now new_id t c ru d))))"
  using assms by (simp add: post_notes_def Let_def)

lemma put_notes_distinct:
  assumes "distinct (map note_id (Note d))"
  shows "distinct (map note_id (Note (snd (put_notes i t c ru d))))"
proof (cases "Note_findOne i (req_id ru) (Note d)")
  case None
  then show ?thesis using assms by (simp add: put_notes_def)
next
  case (Some n)
  then show ?thesis
    using assms Note_save_ids[of "n\<lparr>title := t, content := c\<rparr>" "note_id n" "Note d"]
    by (simp add: put_notes_def Let_def)
qed

lemma delete_notes_distinct:
  assumes "distinct (map note_id (Note d))"
  shows "distinct (map note_id (Note (snd (delete_notes i ru d))))"
  using assms distinct_delete_first[of note_id "Note d"]
  by (cases "Note_findOne i (req_id ru) (Note d)") (simp_all add: delete_notes_def)

lemma User_findOne_append:
  "User_findOne em us = None \<Longrightarrow> email u = em \<Longrightarrow> User_findOne em (us @ [u]) = Some u"
  unfolding User_findOne_def by (induction us) (auto split: if_splits)

lemma User_findOne_None_filter:
  "User_findOne em us = None \<Longrightarrow> filter (\<lambda>u. email u = em) us = []"
  unfolding User_findOne_def find_None_iff by (simp add: filter_empty_conv)

lemma User_findById_id: "User_findById i us = Some u \<Longrightarrow> user_id u = i"
  unfolding User_findById_def by (induction us) (auto split: if_splits)

lemma User_findById_save:
  assumes "User_findById i us = Some u" and "user_id u' = i"
  shows "User_findById i (User_save u' us) = Some u'"
  using assms unfolding User_findById_def User_save_def
  by (induction us) (auto split: if_splits)

lemma register_201:
  assumes "status (fst (register e now salt i em_f pw_f d)) = 201"
  shows "\<exists>em pw. em_f = Some em \<and> pw_f = Some pw \<and> em \<noteq> [] \<and> pw \<noteq> [] \<and>
           User_findOne em (User d) = None"
proof -
  have "\<not> falsy em_f" "\<not> falsy pw_f"
    using assms by (auto simp: register_def split: if_splits)
  then obtain em pw where f: "em_f = Some em" "pw_f = Some pw" "em \<noteq> []" "pw \<noteq> []"
    by (cases em_f; cases pw_f) (simp_all add: falsy_def)
  have "User_findOne em (User d) = None"
    using assms f(3,4) unfolding f(1,2)
    by (cases "User_findOne em (User d)") (simp_all add: register_def falsy_def)
  with f show ?thesis by simp
qed

lemma register_ok:
  assumes "em \<noteq> []" and "pw \<noteq> []" and "User_findOne em (User d) = None"
  shows "register e now salt i (Some em) (Some pw) d =
    (\<lparr>status = 201,
      body = TokenAndUser
        (generateToken e now \<lparr>user_id = i, email = em, password = hashPassword e salt pw\<rparr>)
        i em\<rparr>,
     d\<lparr>User := User d @ [\<lparr>user_id = i, email = em, password = hashPassword e salt pw\<rparr>]\<rparr>)"
  using assms by (simp add: register_def falsy_def Let_def)

lemma reset_password_200:
  assumes "reset_password e now salt (Some tok) (Some pw) d = (r, d')" and "status r = 200"
  shows "tok \<noteq> [] \<and> pw \<noteq> [] \<and>
         (\<exists>pl u. jws_decode e tok = Some (JWS pl (JWT_SECRET e)) \<and>
                 User_findById (claim_id pl) (User d) = Some u \<and>
                 d' = d\<lparr>User := User_save (u\<lparr>password := hashPassword e salt pw\<rparr>) (User d)\<rparr>)"
  using assms
  by (auto simp: reset_password_def falsy_def jwt_verify_def Let_def
      split: if_splits option.splits sum.splits jws.splits)

lemma reset_password_ok:
  assumes "tok \<noteq> []" and "pw \<noteq> []"
    and "jws_decode e tok = Some (JWS pl (JWT_SECRET e))"
    and "now div 1000 < claim_exp pl"
    and "User_findById (claim_id pl) (User d) = Some u"
  shows "reset_password e now salt (Some tok) (Some pw) d =
     (\<lparr>status = 200, body = Message ''Password updated successfully''\<rparr>,
      d\<lparr>User := User_save (u\<lparr>password := hashPassword e salt pw\<rparr>) (User d)\<rparr>)"
  using assms by (simp add: reset_password_def falsy_def jwt_verify_def Let_def)

text \<open>
  The part of the 401 outcome of \<open>reset_password\<close> that holds: a string that is not a token
  and a token signed with another key are answered with 401.
\<close>

lemma reset_password_malformed_401:
  assumes "tok \<noteq> []" and "pw \<noteq> []" and "jws_decode e tok = None"
  shows "reset_password e now salt (Some tok) (Some pw) d =
           (\<lparr>status = 401, body = Message ''Invalid or expired token''\<rparr>, d)"
  using assms by (simp add: reset_password_def falsy_def jwt_verify_def)

lemma reset_password_bad_signature_401:
  assumes "tok \<noteq> []" and "pw \<noteq> []" and "jws_decode e tok = Some (JWS pl k)"
    and "k \<noteq> JWT_SECRET e"
  shows "reset_password e now salt (Some tok) (Some pw) d =
           (\<lparr>status = 401, body = Message ''Invalid or expired token''\<rparr>, d)"
  using assms by (simp add: reset_password_def falsy_def jwt_verify_def)

lemma sorted_desc:
  "sorted_wrt (\<lambda>a b. createdAt b \<le> createdAt a) (sort_key (\<lambda>n. - int (createdAt n)) ns)"
proof -
  have "sorted (map (\<lambda>n. - int (createdAt n)) (sort_key (\<lambda>n. - int (createdAt n)) ns))"
    by (rule sorted_sort_key)
  then show ?thesis
    by (simp add: sorted_map)
qed

lemma sorted_strict_desc:
  assumes "distinct (map createdAt ns)"
  shows "sorted_wrt (\<lambda>a b. createdAt b < createdAt a) (sort_key (\<lambda>n. - int (createdAt n)) ns)"
proof -
  let ?k = "\<lambda>n. - int (createdAt n)"
  have "distinct (map ?k ns)"
    using assms by (auto simp: distinct_map inj_on_def)
  moreover have "mset (map ?k (sort_key ?k ns)) = mset (map ?k ns)"
    by simp
  ultimately have "distinct (map ?k (sort_key ?k ns))"
    by (metis mset_eq_imp_distinct_iff)
  then have "sorted_wrt (<) (map ?k (sort_key ?k ns))"
    using sorted_sort_key[of ?k ns] by (simp add: strict_sorted_iff)
  then show ?thesis
    by (simp add: sorted_wrt_map)
qed

lemma login_failures_identical_strings:
  assumes "e1 \<noteq> []" and "p1 \<noteq> []" and "e2 \<noteq> []" and "p2 \<noteq> []"
    and "User_findOne e1 (User d) = Some u"
    and "\<not> bcrypt_compare e p1 (password u)"
    and "User_findOne e2 (User d) = None"
  shows "login e now (Some e1) (Str p1) d =
           (\<lparr>status = 401, body = Message ''Invalid credentials''\<rparr>, d)
       \<and> login e now' (Some e2) (Str p2) d =
           (\<lparr>status = 401, body = Message ''Invalid credentials''\<rparr>, d)"
  using assms by (simp add: login_def falsy_def comparePassword_def bcrypt_compare_call_def)

subsection \<open>The authentication gate\<close>

text \<open>
  Claim C1 says that the gate rejects every token of the reset flow. The source signs
  reset tokens and session tokens with the same secret and \<open>authMiddleware\<close> checks
  nothing but signature and expiry, so the claim fails: the reset token that
  \<open>forgot_password\<close> logs for account 1 at time 0, sent one second later as
  \<^verbatim>\<open>Authorization: Bearer rt\<close>, passes the gate as identity 1 and the notes of that
  account are listed.
\<close>

theorem C1_reset_token_rejected_counterexample:
  "snd (forgot_password demo_env 0 (Some ''a@b.c'') demo_db) = [''Reset token for a@b.c: rt'']
   \<and> authMiddleware demo_env 1000 (Some ''Bearer rt'') = Inr \<lparr>req_id = 1, req_email = None\<rparr>
   \<and> fst (protected demo_env 1000 (Some ''Bearer rt'') get_notes demo_db) =
       \<lparr>status = 200,
        body = NoteList [\<lparr>note_id = 10, title = Some ''t'', content = Some ''c'', owner = 1,
                          createdAt = 5\<rparr>]\<rparr>"
  by (simp add: forgot_password_def demo_env_def table_env_def reset_jws_def demo_db_def
      falsy_def User_findOne_def jwt_sign_def JWT_SECRET_def authMiddleware_def js_index_def
      jwt_verify_def protected_def get_notes_def Note_find_sorted_def)

text \<open>
  Claim C1, amended: a token of the reset flow (claims: the identity id only, one hour)
  presented as a bearer credential is accepted by the gate for as long as it has not
  expired: the gate binds the token's identity id, with no email, and the protected
  operation proceeds. From its expiry on it is rejected with 401 "Invalid token".
\<close>

theorem C1_reset_token_passes_gate_until_expiry:
  assumes "codec_ok e (JWS \<lparr>claim_id = user_id u, claim_email = None,
                             claim_iat = now div 1000, claim_exp = now div 1000 + 3600\<rparr>
                        (JWT_SECRET e))"
  shows "authMiddleware e now'
           (Some (''Bearer '' @ jwt_sign e (user_id u) None (JWT_SECRET e) 3600 now)) =
           (if now' div 1000 < now div 1000 + 3600
            then Inr \<lparr>req_id = user_id u, req_email = None\<rparr>
            else Inl \<lparr>status = 401, body = Message ''Invalid token''\<rparr>)"
proof -
  let ?tok = "jwt_sign e (user_id u) None (JWT_SECRET e) 3600 now"
  have tok: "js_index (js_split CHR '' '' (''Bearer '' @ ?tok)) 1 = Some ?tok"
    using jwt_sign_no_space(1)[OF assms] by (rule bearer_token)
  have hdr: "\<not> falsy (Some (''Bearer '' @ ?tok))" "prefix ''Bearer '' (''Bearer '' @ ?tok)"
    by (simp_all add: falsy_def)
  show ?thesis
    unfolding authMiddleware_def Let_def option.sel tok jwt_verify_sign[OF assms] using hdr
    by simp
qed

theorem C1_reset_token_passes_gate_until_expiry_witness:
  "codec_ok demo_env reset_jws
   \<and> authMiddleware demo_env 3599999 (Some ''Bearer rt'') = Inr \<lparr>req_id = 1, req_email = None\<rparr>
   \<and> authMiddleware demo_env 3600000 (Some ''Bearer rt'') =
       Inl \<lparr>status = 401, body = Message ''Invalid token''\<rparr>"
proof -
  have h: "codec_ok demo_env
             (JWS \<lparr>claim_id = user_id \<lparr>user_id = 1, email = ''a@b.c'', password = ''s0secret''\<rparr>,
                   claim_email = None, claim_iat = 0 div 1000,
                   claim_exp = 0 div 1000 + 3600\<rparr> (JWT_SECRET demo_env))"
    using demo_env_codec_ok by (simp add: reset_jws_def demo_env_secret)
  have tok: "jwt_sign demo_env
               (user_id \<lparr>user_id = 1, email = ''a@b.c'', password = ''s0secret''\<rparr>) None
               (JWT_SECRET demo_env) 3600 0 = ''rt''"
    by (simp add: jwt_sign_def JWT_SECRET_def demo_env_def table_env_def reset_jws_def)
  show ?thesis
    using demo_env_codec_ok
      C1_reset_token_passes_gate_until_expiry [OF h, of 3599999, unfolded tok]
      C1_reset_token_passes_gate_until_expiry [OF h, of 3600000, unfolded tok]
    by simp
qed

text \<open>
  Claim C6 says that every failure of the gate yields the same observable response.
  The status is the same, the body is not: a missing header is answered with
  "Unauthorized", a token that fails validation with "Invalid token".
\<close>

theorem C6_uniform_failure_counterexample:
  "authMiddleware demo_env 0 None = Inl \<lparr>status = 401, body = Message ''Unauthorized''\<rparr>
   \<and> authMiddleware demo_env 0 (Some ''Bearer abc'') =
       Inl \<lparr>status = 401, body = Message ''Invalid token''\<rparr>
   \<and> \<lparr>status = 401, body = Message ''Unauthorized''\<rparr> \<noteq>
       \<lparr>status = (401::nat), body = Message ''Invalid token''\<rparr>"
  by (simp add: authMiddleware_def falsy_def demo_env_def table_env_def jwt_verify_def
      js_index_def JWT_SECRET_def)

text \<open>
  Claim C6, amended: every request that fails the gate is answered with status 401. The
  body is the message "Unauthorized" when the Authorization header is absent, empty or
  does not start with "Bearer ", and the message "Invalid token" otherwise, the same for
  every way the token can fail validation (missing, malformed, wrong signature,
  expired).
\<close>

theorem C6_gate_failure_is_401:
  assumes "authMiddleware e now h = Inl r"
  shows "status r = 401 \<and>
         body r = (if (case h of None \<Rightarrow> False | Some a \<Rightarrow> prefix ''Bearer '' a)
                   then Message ''Invalid token'' else Message ''Unauthorized'')"
  using assms
  by (auto simp: authMiddleware_def falsy_def Let_def split: option.splits sum.splits if_splits)

theorem C6_gate_failure_is_401_witness:
  "authMiddleware demo_env 3600000 (Some ''Bearer rt'') =
     Inl \<lparr>status = 401, body = Message ''Invalid token''\<rparr>
   \<and> status \<lparr>status = 401, body = Message ''Invalid token''\<rparr> = 401
   \<and> body \<lparr>status = (401::nat), body = Message ''Invalid token''\<rparr> = Message ''Invalid token''"
proof -
  have h: "authMiddleware demo_env 3600000 (Some ''Bearer rt'') =
             Inl \<lparr>status = 401, body = Message ''Invalid token''\<rparr>"
    by (simp add: authMiddleware_def falsy_def demo_env_def table_env_def jwt_verify_def
        js_index_def JWT_SECRET_def reset_jws_def)
  show ?thesis
    using h C6_gate_failure_is_401 [OF h] by simp
qed

subsection \<open>Completing a password reset\<close>

text \<open>
  Claim C2: a complete-reset call whose token fails validation is answered with 401, an
  expired token included. The handler answers 401 only when the caught error's name is
  "JsonWebTokenError"; the error raised for an expired token is named
  "TokenExpiredError", so a well-signed token presented at or after its expiry falls
  through to the 500 branch, although the 401 message reads "Invalid or expired token".
\<close>

theorem C2_expired_reset_token_is_500:
  assumes "tok \<noteq> []" and "pw \<noteq> []"
    and "jws_decode e tok = Some (JWS payload (JWT_SECRET e))"
    and "claim_exp payload \<le> now div 1000"
  shows "reset_password e now salt (Some tok) (Some pw) d =
           (\<lparr>status = 500, body = Message ''Could not reset password''\<rparr>, d)"
  using assms by (simp add: reset_password_def falsy_def jwt_verify_def)

theorem C2_expired_reset_token_is_500_witness:
  "jws_decode demo_env ''rt'' = Some reset_jws
   \<and> reset_password demo_env 3600000 ''s1'' (Some ''rt'') (Some ''newpw'') demo_db =
       (\<lparr>status = 500, body = Message ''Could not reset password''\<rparr>, demo_db)"
proof -
  have h: "jws_decode demo_env ''rt'' =
             Some (JWS \<lparr>claim_id = 1, claim_email = None, claim_iat = 0, claim_exp = 3600\<rparr>
                     (JWT_SECRET demo_env))"
    by (simp add: demo_env_secret) (simp add: demo_env_def table_env_def reset_jws_def)
  have x: "claim_exp \<lparr>claim_id = 1, claim_email = None, claim_iat = 0, claim_exp = 3600\<rparr>
             \<le> (3600000::nat) div 1000"
    by simp
  have t: "''rt'' \<noteq> []" and p: "''newpw'' \<noteq> []"
    by simp_all
  show ?thesis
    using h C2_expired_reset_token_is_500 [OF t p h x, where salt = "''s1''" and d = demo_db]
    by (simp add: demo_env_secret reset_jws_def)
qed

text \<open>
  Claim C5 says that a reset token that has completed one reset cannot authorise a
  second. The handler keeps no record of used tokens: the token \<open>rt\<close> resets the password
  of account 1 at second 1 and, presented again at second 2, resets it once more.
\<close>

theorem C5_reset_token_replay_counterexample:
  "reset_password demo_env 1000 ''s1'' (Some ''rt'') (Some ''pw1'') demo_db =
     (\<lparr>status = 200, body = Message ''Password updated successfully''\<rparr>,
      demo_db\<lparr>User := [\<lparr>user_id = 1, email = ''a@b.c'', password = ''s1pw1''\<rparr>]\<rparr>)
   \<and> reset_password demo_env 2000 ''s2'' (Some ''rt'') (Some ''pw2'')
       (demo_db\<lparr>User := [\<lparr>user_id = 1, email = ''a@b.c'', password = ''s1pw1''\<rparr>]\<rparr>) =
     (\<lparr>status = 200, body = Message ''Password updated successfully''\<rparr>,
      demo_db\<lparr>User := [\<lparr>user_id = 1, email = ''a@b.c'', password = ''s2pw2''\<rparr>]\<rparr>)"
  by (simp add: reset_password_def falsy_def jwt_verify_def JWT_SECRET_def demo_env_def
      table_env_def reset_jws_def demo_db_def User_findById_def User_save_def
      hashPassword_def)

text \<open>
  Claim C5, amended: a reset token stays usable until it expires. After a successful
  complete-reset call, every further call that presents the same token before its expiry,
  with a non-empty password, succeeds again and replaces the stored secret of the same
  identity with the hash of the new password.
\<close>

theorem C5_reset_token_reusable_until_expiry:
  assumes "reset_password e now1 s1 (Some tok) (Some p1) d = (r1, d1)" and "status r1 = 200"
    and "jws_decode e tok = Some (JWS pl k)" and "now2 div 1000 < claim_exp pl"
    and "p2 \<noteq> []"
  shows "fst (reset_password e now2 s2 (Some tok) (Some p2) d1) =
           \<lparr>status = 200, body = Message ''Password updated successfully''\<rparr>
       \<and> map_option password
            (User_findById (claim_id pl)
               (User (snd (reset_password e now2 s2 (Some tok) (Some p2) d1)))) =
           Some (hashPassword e s2 p2)"
proof -
  from reset_password_200[OF assms(1,2)] assms(3)
  obtain u where tok: "tok \<noteq> []" and k: "k = JWT_SECRET e"
    and u: "User_findById (claim_id pl) (User d) = Some u"
    and d1: "d1 = d\<lparr>User := User_save (u\<lparr>password := hashPassword e s1 p1\<rparr>) (User d)\<rparr>"
    by auto
  let ?u1 = "u\<lparr>password := hashPassword e s1 p1\<rparr>"
  let ?u2 = "?u1\<lparr>password := hashPassword e s2 p2\<rparr>"
  have id: "user_id u = claim_id pl"
    using u by (rule User_findById_id)
  have u1: "User_findById (claim_id pl) (User d1) = Some ?u1"
    unfolding d1 using User_findById_save[OF u, of ?u1] id by simp
  have dec: "jws_decode e tok = Some (JWS pl (JWT_SECRET e))"
    using assms(3) k by simp
  have second: "reset_password e now2 s2 (Some tok) (Some p2) d1 =
     (\<lparr>status = 200, body = Message ''Password updated successfully''\<rparr>,
      d1\<lparr>User := User_save ?u2 (User d1)\<rparr>)"
    by (rule reset_password_ok[OF tok assms(5) dec assms(4) u1])
  have "User_findById (claim_id pl) (User_save ?u2 (User d1)) = Some ?u2"
    using User_findById_save[OF u1, of ?u2] id by simp
  then show ?thesis unfolding second by simp
qed

theorem C5_reset_token_reusable_until_expiry_witness:
  "reset_password demo_env 1000 ''s1'' (Some ''rt'') (Some ''pw1'') demo_db =
     (\<lparr>status = 200, body = Message ''Password updated successfully''\<rparr>,
      demo_db\<lparr>User := [\<lparr>user_id = 1, email = ''a@b.c'', password = ''s1pw1''\<rparr>]\<rparr>)
   \<and> fst (reset_password demo_env 3599999 ''s2'' (Some ''rt'') (Some ''pw2'')
           (demo_db\<lparr>User := [\<lparr>user_id = 1, email = ''a@b.c'', password = ''s1pw1''\<rparr>]\<rparr>)) =
       \<lparr>status = 200, body = Message ''Password updated successfully''\<rparr>
   \<and> map_option password
        (User_findById 1
           (User (snd (reset_password demo_env 3599999 ''s2'' (Some ''rt'') (Some ''pw2'')
              (demo_db\<lparr>User := [\<lparr>user_id = 1, email = ''a@b.c'', password = ''s1pw1''\<rparr>]\<rparr>))))) =
       Some ''s2pw2''"
proof -
  let ?d1 = "demo_db\<lparr>User := [\<lparr>user_id = 1, email = ''a@b.c'', password = ''s1pw1''\<rparr>]\<rparr>"
  let ?pl = "\<lparr>claim_id = 1, claim_email = None, claim_iat = 0, claim_exp = 3600\<rparr>"
  have first: "reset_password demo_env 1000 ''s1'' (Some ''rt'') (Some ''pw1'') demo_db =
     (\<lparr>status = 200, body = Message ''Password updated successfully''\<rparr>, ?d1)"
    by (simp add: reset_password_def falsy_def jwt_verify_def JWT_SECRET_def demo_env_def
        table_env_def reset_jws_def demo_db_def User_findById_def User_save_def
        hashPassword_def)
  have ok: "status \<lparr>status = 200, body = Message ''Password updated successfully''\<rparr> = 200"
    by simp
  have dec: "jws_decode demo_env ''rt'' = Some (JWS ?pl ''notesflow_secret'')"
    by (simp add: demo_env_def table_env_def reset_jws_def)
  have live: "(3599999::nat) div 1000 < claim_exp ?pl"
    by simp
  have p2: "''pw2'' \<noteq> []"
    by simp
  have h2: "hashPassword demo_env ''s2'' ''pw2'' = ''s2pw2''"
    by (simp add: hashPassword_def demo_env_def table_env_def)
  have c1: "claim_id ?pl = 1"
    by simp
  show ?thesis
    using first
      C5_reset_token_reusable_until_expiry [OF first ok dec live p2, of "''s2''",
        unfolded h2 c1]
    by simp
qed

subsection \<open>Login and registration\<close>

text \<open>
  Claim C4: a login with an existing email and a wrong password and a login with an
  email that is not registered produce identical results. For string passwords they do
  (\<open>login_failures_identical_strings\<close>). A password that is truthy and not a string, such
  as the JSON number 123, is a wrong password too, and there the handler gives the two
  cases away: for an email that is not registered it answers 401 before the password is
  looked at, for a registered email \<^verbatim>\<open>bcrypt.compare\<close> rejects its argument and the
  \<^verbatim>\<open>catch\<close> branch answers 500 with the error's message.
\<close>

theorem C4_login_non_string_password_differs:
  assumes "e1 \<noteq> []" and "e2 \<noteq> []"
    and "\<not> js_falsy pw" and "js_typeof pw \<noteq> ''string''"
    and "User_findOne e1 (User d) = Some u"
    and "User_findOne e2 (User d) = None"
  shows "login e now (Some e1) pw d =
           (\<lparr>status = 500,
             body = Message (''Illegal arguments: '' @ js_typeof pw @ '', string'')\<rparr>, d)
       \<and> login e now' (Some e2) pw d =
           (\<lparr>status = 401, body = Message ''Invalid credentials''\<rparr>, d)
       \<and> status (fst (login e now (Some e1) pw d)) \<noteq> status (fst (login e now' (Some e2) pw d))"
proof -
  have cmp: "comparePassword e pw (password u) =
      Inl (Error (''Illegal arguments: '' @ js_typeof pw @ '', string''))"
    using assms(4) by (cases pw) (simp_all add: comparePassword_def bcrypt_compare_call_def)
  have known: "login e now (Some e1) pw d =
      (\<lparr>status = 500,
        body = Message (''Illegal arguments: '' @ js_typeof pw @ '', string'')\<rparr>, d)"
    using assms(1,3,5) cmp by (simp add: login_def falsy_def)
  have unknown: "login e now' (Some e2) pw d =
      (\<lparr>status = 401, body = Message ''Invalid credentials''\<rparr>, d)"
    using assms(2,3,6) by (simp add: login_def falsy_def)
  show ?thesis
    unfolding known unknown by simp
qed

theorem C4_login_non_string_password_differs_witness:
  "User_findOne ''a@b.c'' (User demo_db) =
     Some \<lparr>user_id = 1, email = ''a@b.c'', password = ''s0secret''\<rparr>
   \<and> User_findOne ''no@b.c'' (User demo_db) = None
   \<and> login demo_env 0 (Some ''a@b.c'') (Number 123) demo_db =
       (\<lparr>status = 500, body = Message ''Illegal arguments: number, string''\<rparr>, demo_db)
   \<and> login demo_env 0 (Some ''no@b.c'') (Number 123) demo_db =
       (\<lparr>status = 401, body = Message ''Invalid credentials''\<rparr>, demo_db)"
proof -
  let ?u = "\<lparr>user_id = 1, email = ''a@b.c'', password = ''s0secret''\<rparr>"
  have n: "''a@b.c'' \<noteq> []" "''no@b.c'' \<noteq> []"
    by simp_all
  have t: "\<not> js_falsy (Number 123)" "js_typeof (Number 123) \<noteq> ''string''"
    by simp_all
  have f1: "User_findOne ''a@b.c'' (User demo_db) = Some ?u"
    by (simp add: User_findOne_def demo_db_def)
  have f2: "User_findOne ''no@b.c'' (User demo_db) = None"
    by (simp add: User_findOne_def demo_db_def)
  show ?thesis
    using f1 f2 C4_login_non_string_password_differs [OF n t f1 f2, of demo_env 0 0]
    by simp
qed

text \<open>
  Claim C7: for a non-empty email and password and a store in which the email is not
  registered, register succeeds (201), a login with the same pair then succeeds (200),
  and the token that login returns validates, at any time before its expiry, to the
  identity id that register created. The hypotheses on the packages: bcrypt accepts a
  password against its own hash, and the token reads back from its string.
\<close>

theorem C7_register_then_login:
  assumes "em \<noteq> []" and "pw \<noteq> []" and "User_findOne em (User d) = None"
    and "comparePassword e (Str pw) (hashPassword e salt pw) = Inr True"
    and "codec_ok e (JWS \<lparr>claim_id = new_id, claim_email = Some em,
                          claim_iat = now2 div 1000, claim_exp = now2 div 1000 + 604800\<rparr>
                      (JWT_SECRET e))"
    and "now3 div 1000 < now2 div 1000 + 604800"
  shows "let u = \<lparr>user_id = new_id, email = em, password = hashPassword e salt pw\<rparr>;
             d1 = d\<lparr>User := User d @ [u]\<rparr>
         in register e now1 salt new_id (Some em) (Some pw) d =
              (\<lparr>status = 201, body = TokenAndUser (generateToken e now1 u) new_id em\<rparr>, d1)
          \<and> login e now2 (Some em) (Str pw) d1 =
              (\<lparr>status = 200, body = TokenAndUser (generateToken e now2 u) new_id em\<rparr>, d1)
          \<and> jwt_verify e (Some (generateToken e now2 u)) (JWT_SECRET e) now3 =
              Inr \<lparr>claim_id = new_id, claim_email = Some em, claim_iat = now2 div 1000,
                   claim_exp = now2 div 1000 + 604800\<rparr>"
proof -
  let ?u = "\<lparr>user_id = new_id, email = em, password = hashPassword e salt pw\<rparr>"
  let ?d1 = "d\<lparr>User := User d @ [?u]\<rparr>"
  have reg: "register e now1 salt new_id (Some em) (Some pw) d =
      (\<lparr>status = 201, body = TokenAndUser (generateToken e now1 ?u) new_id em\<rparr>, ?d1)"
    by (rule register_ok[OF assms(1-3)])
  have found: "User_findOne em (User ?d1) = Some ?u"
    using User_findOne_append[OF assms(3), of ?u] by simp
  have log: "login e now2 (Some em) (Str pw) ?d1 =
      (\<lparr>status = 200, body = TokenAndUser (generateToken e now2 ?u) new_id em\<rparr>, ?d1)"
    using assms(1,2,4) found by (simp add: login_def falsy_def)
  have ver: "jwt_verify e (Some (generateToken e now2 ?u)) (JWT_SECRET e) now3 =
      Inr \<lparr>claim_id = new_id, claim_email = Some em, claim_iat = now2 div 1000,
           claim_exp = now2 div 1000 + 604800\<rparr>"
    using jwt_verify_sign[OF assms(5), of now3] assms(6) by (simp add: generateToken_def)
  show ?thesis
    unfolding Let_def using reg log ver by simp
qed

theorem C7_register_then_login_witness:
  "User_findOne ''x@y.z'' (User demo_db) = None
   \<and> register demo_env 5000 ''s9'' 2 (Some ''x@y.z'') (Some ''hunter2'') demo_db =
       (\<lparr>status = 201, body = TokenAndUser ''st'' 2 ''x@y.z''\<rparr>,
        demo_db\<lparr>User := User demo_db @
                   [\<lparr>user_id = 2, email = ''x@y.z'', password = ''s9hunter2''\<rparr>]\<rparr>)
   \<and> login demo_env 5000 (Some ''x@y.z'') (Str ''hunter2'')
       (demo_db\<lparr>User := User demo_db @
                   [\<lparr>user_id = 2, email = ''x@y.z'', password = ''s9hunter2''\<rparr>]\<rparr>) =
       (\<lparr>status = 200, body = TokenAndUser ''st'' 2 ''x@y.z''\<rparr>,
        demo_db\<lparr>User := User demo_db @
                   [\<lparr>user_id = 2, email = ''x@y.z'', password = ''s9hunter2''\<rparr>]\<rparr>)
   \<and> jwt_verify demo_env (Some ''st'') ''notesflow_secret'' 604804999 =
       Inr \<lparr>claim_id = 2, claim_email = Some ''x@y.z'', claim_iat = 5, claim_exp = 604805\<rparr>"
proof -
  let ?u = "\<lparr>user_id = 2, email = ''x@y.z'', password = ''s9hunter2''\<rparr>"
  have n: "''x@y.z'' \<noteq> []" "''hunter2'' \<noteq> []"
    by simp_all
  have free: "User_findOne ''x@y.z'' (User demo_db) = None"
    by (simp add: User_findOne_def demo_db_def)
  have h: "hashPassword demo_env ''s9'' ''hunter2'' = ''s9hunter2''"
    by (simp add: hashPassword_def demo_env_def table_env_def)
  have cmp: "comparePassword demo_env (Str ''hunter2'') (hashPassword demo_env ''s9'' ''hunter2'') =
      Inr True"
    by (simp add: comparePassword_def bcrypt_compare_call_def hashPassword_def demo_env_def
        table_env_def)
  have codec: "codec_ok demo_env
                 (JWS \<lparr>claim_id = 2, claim_email = Some ''x@y.z'', claim_iat = 5000 div 1000,
                       claim_exp = 5000 div 1000 + 604800\<rparr> (JWT_SECRET demo_env))"
    by (simp add: codec_ok_def demo_env_secret)
       (simp add: demo_env_def table_env_def reset_jws_def session_jws_def)
  have live: "(604804999::nat) div 1000 < 5000 div 1000 + 604800"
    by simp
  have tok: "generateToken demo_env 5000 ?u = ''st''"
    by (simp add: generateToken_def jwt_sign_def JWT_SECRET_def demo_env_def table_env_def
        reset_jws_def session_jws_def)
  show ?thesis
    using free
      C7_register_then_login [OF n free cmp codec live, of 5000,
        unfolded Let_def h tok demo_env_secret]
    by simp
qed

text \<open>
  Claim C8: after a successful registration of an email, registering the same email
  again (with any non-empty password) returns 409 and leaves the store as it was; the
  store holds exactly one identity with that email.
\<close>

theorem C8_second_register_conflict:
  assumes "status (fst (register e now salt i (Some em) pw_f d)) = 201" and "pw' \<noteq> []"
  shows "let d1 = snd (register e now salt i (Some em) pw_f d)
         in register e now' salt' i' (Some em) (Some pw') d1 =
              (\<lparr>status = 409, body = Message ''User already exists''\<rparr>, d1)
          \<and> length (filter (\<lambda>u. email u = em) (User d1)) = 1"
proof -
  from register_201[OF assms(1)]
  obtain pw where pwf: "pw_f = Some pw" "pw \<noteq> []" and em: "em \<noteq> []"
    and free: "User_findOne em (User d) = None"
    by auto
  let ?u = "\<lparr>user_id = i, email = em, password = hashPassword e salt pw\<rparr>"
  have d1: "snd (register e now salt i (Some em) pw_f d) = d\<lparr>User := User d @ [?u]\<rparr>"
    unfolding pwf by (simp add: register_ok[OF em pwf(2) free])
  have found: "User_findOne em (User d @ [?u]) = Some ?u"
    using User_findOne_append[OF free, of ?u] by simp
  have one: "filter (\<lambda>u. email u = em) (User d @ [?u]) = [?u]"
    using User_findOne_None_filter[OF free] by simp
  show ?thesis
    unfolding Let_def d1 using found one em assms(2) by (simp add: register_def falsy_def)
qed

theorem C8_second_register_conflict_witness:
  "status (fst (register demo_env 5000 ''s9'' 2 (Some ''x@y.z'') (Some ''hunter2'') demo_db)) = 201
   \<and> register demo_env 6000 ''s8'' 3 (Some ''x@y.z'') (Some ''other'')
       (demo_db\<lparr>User := User demo_db @
                   [\<lparr>user_id = 2, email = ''x@y.z'', password = ''s9hunter2''\<rparr>]\<rparr>) =
       (\<lparr>status = 409, body = Message ''User already exists''\<rparr>,
        demo_db\<lparr>User := User demo_db @
                   [\<lparr>user_id = 2, email = ''x@y.z'', password = ''s9hunter2''\<rparr>]\<rparr>)
   \<and> length (filter (\<lambda>u. email u = ''x@y.z'')
        (User demo_db @ [\<lparr>user_id = 2, email = ''x@y.z'', password = ''s9hunter2''\<rparr>])) = 1"
proof -
  have reg: "register demo_env 5000 ''s9'' 2 (Some ''x@y.z'') (Some ''hunter2'') demo_db =
      (\<lparr>status = 201, body = TokenAndUser ''st'' 2 ''x@y.z''\<rparr>,
       demo_db\<lparr>User := User demo_db @
                  [\<lparr>user_id = 2, email = ''x@y.z'', password = ''s9hunter2''\<rparr>]\<rparr>)"
    by (simp add: register_def falsy_def User_findOne_def demo_db_def hashPassword_def
        generateToken_def jwt_sign_def JWT_SECRET_def demo_env_def table_env_def
        reset_jws_def session_jws_def)
  have ok: "status (fst (register demo_env 5000 ''s9'' 2 (Some ''x@y.z'') (Some ''hunter2'')
              demo_db)) = 201"
    unfolding reg by simp
  have p: "''other'' \<noteq> []"
    by simp
  show ?thesis
    using ok C8_second_register_conflict [OF ok p, of 6000 "''s8''" 3, unfolded Let_def reg]
    by simp
qed

subsection \<open>Notes\<close>

text \<open>
  Claim C3: for distinct identities A and B and a note owned by A, an update or a delete
  made with B's authenticated identity id returns 404 "Note not found", carries no note
  data, and leaves the store, A's note included, unchanged. Note ids are unique in the
  collection, as the datastore keeps them.
\<close>

theorem C3_foreign_update_delete_not_found:
  assumes "distinct (map note_id (Note d))" and "n \<in> set (Note d)"
    and "owner n = A" and "req_id ru = B" and "A \<noteq> B"
  shows "put_notes (note_id n) title_f content_f ru d =
           (\<lparr>status = 404, body = Message ''Note not found''\<rparr>, d)
       \<and> delete_notes (note_id n) ru d =
           (\<lparr>status = 404, body = Message ''Note not found''\<rparr>, d)"
proof -
  have "owner n \<noteq> req_id ru"
    using assms(3-5) by simp
  then have "Note_findOne (note_id n) (req_id ru) (Note d) = None"
    using assms(1,2) by (rule Note_findOne_foreign[rotated 2])
  then show ?thesis
    by (simp add: put_notes_def delete_notes_def)
qed

theorem C3_foreign_update_delete_not_found_witness:
  "distinct (map note_id (Note demo_db))
   \<and> put_notes 10 (Some ''mine'') (Some ''now'') \<lparr>req_id = 2, req_email = Some ''x@y.z''\<rparr> demo_db =
       (\<lparr>status = 404, body = Message ''Note not found''\<rparr>, demo_db)
   \<and> delete_notes 10 \<lparr>req_id = 2, req_email = Some ''x@y.z''\<rparr> demo_db =
       (\<lparr>status = 404, body = Message ''Note not found''\<rparr>, demo_db)"
proof -
  let ?n = "\<lparr>note_id = 10, title = Some ''t'', content = Some ''c'', owner = 1, createdAt = 5\<rparr>"
  let ?ru = "\<lparr>req_id = 2, req_email = Some ''x@y.z''\<rparr>"
  have dist: "distinct (map note_id (Note demo_db))"
    by (simp add: demo_db_def)
  have mem: "?n \<in> set (Note demo_db)"
    by (simp add: demo_db_def)
  have a: "owner ?n = 1" and b: "req_id ?ru = 2" and ab: "(1::nat) \<noteq> 2"
    by simp_all
  show ?thesis
    using dist
      C3_foreign_update_delete_not_found [OF dist mem a b ab, of "Some ''mine''" "Some ''now''"]
    by simp
qed

text \<open>
  Claim C9 says that the listing is in strictly descending creation-time order. Two
  notes of one owner that were created in the same millisecond are both listed, next to
  each other, and the first is not strictly later than the second.
\<close>

theorem C9_strictly_descending_counterexample:
  "fst (get_notes \<lparr>req_id = 1, req_email = None\<rparr> tie_db) =
     \<lparr>status = 200,
      body = NoteList
        [\<lparr>note_id = 10, title = Some ''a'', content = Some ''x'', owner = 1, createdAt = 5\<rparr>,
         \<lparr>note_id = 11, title = Some ''b'', content = Some ''y'', owner = 1, createdAt = 5\<rparr>]\<rparr>
   \<and> \<not> createdAt \<lparr>note_id = 11, title = Some ''b'', content = Some ''y'', owner = 1,
                    createdAt = 5\<rparr>
       < createdAt \<lparr>note_id = 10, title = Some ''a'', content = Some ''x'', owner = 1,
                    createdAt = 5\<rparr>"
  by (simp add: get_notes_def tie_db_def Note_find_sorted_def sort_key_def)

text \<open>
  Claim C9, amended: for every authenticated identity and every state of the note store,
  list returns exactly the notes owned by that identity (each once, none of another
  identity), latest first: no note is listed before a note created later. The order is
  strictly descending whenever the creation times of the identity's notes are pairwise
  distinct.
\<close>

theorem C9_list_owned_notes_latest_first:
  "get_notes ru d =
     (\<lparr>status = 200, body = NoteList (Note_find_sorted (req_id ru) (Note d))\<rparr>, d)
   \<and> mset (Note_find_sorted (req_id ru) (Note d)) =
       filter_mset (\<lambda>n. owner n = req_id ru) (mset (Note d))
   \<and> sorted_wrt (\<lambda>a b. createdAt b \<le> createdAt a) (Note_find_sorted (req_id ru) (Note d))
   \<and> (distinct (map createdAt (filter (\<lambda>n. owner n = req_id ru) (Note d))) \<longrightarrow>
        sorted_wrt (\<lambda>a b. createdAt b < createdAt a) (Note_find_sorted (req_id ru) (Note d)))"
proof -
  let ?own = "filter (\<lambda>n. owner n = req_id ru) (Note d)"
  have sorted_form: "Note_find_sorted (req_id ru) (Note d) =
      sort_key (\<lambda>n. - int (createdAt n)) ?own"
    by (simp add: Note_find_sorted_def)
  have answer: "get_notes ru d =
      (\<lparr>status = 200, body = NoteList (Note_find_sorted (req_id ru) (Note d))\<rparr>, d)"
    by (simp add: get_notes_def)
  have exactly: "mset (Note_find_sorted (req_id ru) (Note d)) =
      filter_mset (\<lambda>n. owner n = req_id ru) (mset (Note d))"
    unfolding sorted_form by simp
  have descending: "sorted_wrt (\<lambda>a b. createdAt b \<le> createdAt a)
      (Note_find_sorted (req_id ru) (Note d))"
    unfolding sorted_form by (rule sorted_desc)
  have strictly: "sorted_wrt (\<lambda>a b. createdAt b < createdAt a)
      (Note_find_sorted (req_id ru) (Note d))" if "distinct (map createdAt ?own)"
    unfolding sorted_form using that by (rule sorted_strict_desc)
  show ?thesis
    using answer exactly descending strictly by blast
qed

theorem C9_list_owned_notes_latest_first_witness:
  "distinct (map createdAt (filter (\<lambda>n. owner n = 1) (Note two_owner_db)))
   \<and> get_notes \<lparr>req_id = 1, req_email = None\<rparr> two_owner_db =
       (\<lparr>status = 200,
         body = NoteList
           [\<lparr>note_id = 11, title = Some ''b'', content = Some ''y'', owner = 1, createdAt = 9\<rparr>,
            \<lparr>note_id = 13, title = Some ''d'', content = Some ''w'', owner = 1, createdAt = 7\<rparr>,
            \<lparr>note_id = 10, title = Some ''a'', content = Some ''x'', owner = 1, createdAt = 5\<rparr>]\<rparr>,
        two_owner_db)
   \<and> mset [\<lparr>note_id = 11, title = Some ''b'', content = Some ''y'', owner = 1, createdAt = 9\<rparr>,
            \<lparr>note_id = 13, title = Some ''d'', content = Some ''w'', owner = 1, createdAt = 7\<rparr>,
            \<lparr>note_id = 10, title = Some ''a'', content = Some ''x'', owner = 1, createdAt = 5\<rparr>] =
       filter_mset (\<lambda>n. owner n = 1) (mset (Note two_owner_db))
   \<and> sorted_wrt (\<lambda>a b. createdAt b < createdAt a)
        [\<lparr>note_id = 11, title = Some ''b'', content = Some ''y'', owner = 1, createdAt = 9\<rparr>,
         \<lparr>note_id = 13, title = Some ''d'', content = Some ''w'', owner = 1, createdAt = 7\<rparr>,
         \<lparr>note_id = 10, title = Some ''a'', content = Some ''x'', owner = 1, createdAt = 5\<rparr>]"
proof -
  let ?ru = "\<lparr>req_id = 1, req_email = None\<rparr>"
  have dist: "distinct (map createdAt (filter (\<lambda>n. owner n = 1) (Note two_owner_db)))"
    by (simp add: two_owner_db_def)
  have listing: "Note_find_sorted 1 (Note two_owner_db) =
      [\<lparr>note_id = 11, title = Some ''b'', content = Some ''y'', owner = 1, createdAt = 9\<rparr>,
       \<lparr>note_id = 13, title = Some ''d'', content = Some ''w'', owner = 1, createdAt = 7\<rparr>,
       \<lparr>note_id = 10, title = Some ''a'', content = Some ''x'', owner = 1, createdAt = 5\<rparr>]"
    by (simp add: Note_find_sorted_def two_owner_db_def sort_key_def)
  have rid: "req_id ?ru = 1"
    by simp
  show ?thesis
    using dist C9_list_owned_notes_latest_first [of ?ru two_owner_db, unfolded rid, unfolded listing]
    by blast
qed

text \<open>
  Claim C10: update validates nothing. For every owned note, an update whose title or
  content is missing or the empty string is answered with 200 and the updated note, not
  with 400; the stored note then carries exactly the given (missing or empty) title and
  content. The same body sent to create is answered with 400.
\<close>

theorem C10_update_not_validated:
  assumes "distinct (map note_id (Note d))" and "n \<in> set (Note d)" and "owner n = req_id ru"
    and "falsy title_f \<or> falsy content_f"
  shows "let n' = n\<lparr>title := title_f, content := content_f\<rparr>
         in put_notes (note_id n) title_f content_f ru d =
              (\<lparr>status = 200, body = NoteDoc n'\<rparr>, d\<lparr>Note := Note_save n' (Note d)\<rparr>)
          \<and> Note_findOne (note_id n) (req_id ru) (Note_save n' (Note d)) = Some n'
          \<and> post_notes now new_id title_f content_f ru d =
              (\<lparr>status = 400, body = Message ''Title and content required''\<rparr>, d)"
proof -
  let ?n' = "n\<lparr>title := title_f, content := content_f\<rparr>"
  have found: "Note_findOne (note_id n) (req_id ru) (Note d) = Some n"
    using Note_findOne_own[OF assms(1,2)] assms(3) by simp
  have put: "put_notes (note_id n) title_f content_f ru d =
      (\<lparr>status = 200, body = NoteDoc ?n'\<rparr>, d\<lparr>Note := Note_save ?n' (Note d)\<rparr>)"
    using found by (simp add: put_notes_def Let_def)
  have dist: "distinct (map note_id (Note_save ?n' (Note d)))"
    using assms(1) Note_save_ids[of ?n' "note_id n" "Note d"] by simp
  have mem: "?n' \<in> set (Note_save ?n' (Note d))"
    using Note_save_mem[OF assms(2), of ?n'] by simp
  have after: "Note_findOne (note_id n) (req_id ru) (Note_save ?n' (Note d)) = Some ?n'"
    using Note_findOne_own[OF dist mem] assms(3) by simp
  have post: "post_notes now new_id title_f content_f ru d =
      (\<lparr>status = 400, body = Message ''Title and content required''\<rparr>, d)"
    using assms(4) by (simp add: post_notes_def)
  show ?thesis
    unfolding Let_def using put after post by simp
qed

theorem C10_update_not_validated_witness:
  "falsy None
   \<and> put_notes 10 None (Some '''') \<lparr>req_id = 1, req_email = Some ''a@b.c''\<rparr> demo_db =
       (\<lparr>status = 200,
         body = NoteDoc \<lparr>note_id = 10, title = None, content = Some '''', owner = 1,
                         createdAt = 5\<rparr>\<rparr>,
        demo_db\<lparr>Note := [\<lparr>note_id = 10, title = None, content = Some '''', owner = 1,
                           createdAt = 5\<rparr>]\<rparr>)
   \<and> post_notes 9 11 None (Some '''') \<lparr>req_id = 1, req_email = Some ''a@b.c''\<rparr> demo_db =
       (\<lparr>status = 400, body = Message ''Title and content required''\<rparr>, demo_db)"
proof -
  let ?n = "\<lparr>note_id = 10, title = Some ''t'', content = Some ''c'', owner = 1, createdAt = 5\<rparr>"
  let ?ru = "\<lparr>req_id = 1, req_email = Some ''a@b.c''\<rparr>"
  have dist: "distinct (map note_id (Note demo_db))"
    by (simp add: demo_db_def)
  have mem: "?n \<in> set (Note demo_db)"
    by (simp add: demo_db_def)
  have own: "owner ?n = req_id ?ru"
    by simp
  have f: "falsy None \<or> falsy (Some '''')"
    by (simp add: falsy_def)
  have sv: "Note_save \<lparr>note_id = 10, title = None, content = Some '''', owner = 1, createdAt = 5\<rparr>
              (Note demo_db) =
            [\<lparr>note_id = 10, title = None, content = Some '''', owner = 1, createdAt = 5\<rparr>]"
    by (simp add: Note_save_def demo_db_def)
  show ?thesis
    using C10_update_not_validated [OF dist mem own f, of 9 11] sv
    by (simp add: Let_def falsy_def)
qed

end
